theory Spec2Isabelle
  imports Main "HOL-Library.Char_ord" "HOL-Library.List_Lexorder" "HOL-Library.Sublist"
begin

section \<open>Provider selection and caching of TradingAgents\<close>

text \<open>
  A shallow embedding of \<^verbatim>\<open>tradingagents/dataflows/search_provider_factory.py\<close> and
  \<^verbatim>\<open>tradingagents/agents/utils/embedding_provider_factory.py\<close>.

  \<^item> A Python \<^verbatim>\<open>str\<close> is a \<open>string\<close>; a character stands for a code point below 256.
  \<^item> A configuration is a dictionary from keys to strings (the two fields the code reads,
    \<^verbatim>\<open>backend_url\<close> and \<^verbatim>\<open>quick_think_llm\<close>, are strings in the data model); a key may be
    absent.
  \<^item> A dictionary whose iteration order is observable (the selector's mappings, the
    registry) is an association list in insertion order; the cache, which is only looked
    up by key, is a map.
  \<^item> A provider instance is a reference into a heap of objects, so that "the same
    instance" is equality of references. Instantiating a class allocates a new
    reference.
  \<^item> A raised exception is the left summand of the result.
\<close>

subsection \<open>Python values and exceptions\<close>

type_synonym config = "string \<rightharpoonup> string"

text \<open>\<^verbatim>\<open>config.get(key, default)\<close>\<close>

definition dict_get :: "config \<Rightarrow> string \<Rightarrow> string \<Rightarrow> string" where
  "dict_get config key dflt = (case config key of None \<Rightarrow> dflt | Some v \<Rightarrow> v)"

text \<open>Exceptions raised by indexing a dictionary, or inside a registered constructor.\<close>

datatype exn = KeyError string | OtherException string

text \<open>
  What \<^verbatim>\<open>SearchProviderRegistry.create\<close> and the factory can raise: the
  \<^verbatim>\<open>ValueError(f"Unknown provider type: {provider_type}")\<close> of \<^verbatim>\<open>create\<close> itself, or
  an exception that escapes the constructor it called and propagates unchanged.
\<close>

datatype error = UnknownProviderType string | ConstructorRaised exn

text \<open>\<^verbatim>\<open>config[key]\<close>\<close>

definition dict_index :: "config \<Rightarrow> string \<Rightarrow> exn + string" where
  "dict_index config key = (case config key of None \<Rightarrow> Inl (KeyError key) | Some v \<Rightarrow> Inr v)"

text \<open>\<^verbatim>\<open>s.startswith(p)\<close> and \<^verbatim>\<open>p in s\<close> on strings.\<close>

fun startswith :: "string \<Rightarrow> string \<Rightarrow> bool" where
  "startswith s [] = True"
| "startswith [] (c # p) = False"
| "startswith (x # s) (c # p) = (x = c \<and> startswith s p)"

fun str_contains :: "string \<Rightarrow> string \<Rightarrow> bool" where
  "str_contains [] p = (p = [])"
| "str_contains (x # s) p = (startswith (x # s) p \<or> str_contains s p)"

text \<open>
  An ordered dictionary as an association list: \<^verbatim>\<open>d[k] = v\<close> replaces the value of an
  existing key in place and appends a new key at the end.
\<close>

fun dict_set :: "('k \<times> 'v) list \<Rightarrow> 'k \<Rightarrow> 'v \<Rightarrow> ('k \<times> 'v) list" where
  "dict_set [] k v = [(k, v)]"
| "dict_set ((k', v') # d) k v = (if k' = k then (k, v) # d else (k', v') # dict_set d k v)"

subsection \<open>Heap of provider objects\<close>

type_synonym ref = nat

type_synonym 'p heap = "'p list"

text \<open>Instantiating a class: the new object gets the next free reference.\<close>

definition alloc :: "'p \<Rightarrow> 'p heap \<Rightarrow> ref \<times> 'p heap" where
  "alloc obj h = (length h, h @ [obj])"

subsection \<open>MappingBasedProviderSelector\<close>

record MappingBasedProviderSelector =
  mappings :: "(string \<times> string) list"
  default_provider :: string

text \<open>The \<^verbatim>\<open>for pattern, provider_type in self._mappings.items()\<close> loop.\<close>

fun select_loop :: "(string \<times> string) list \<Rightarrow> string \<Rightarrow> string \<Rightarrow> string" where
  "select_loop [] backend_url dflt = dflt"
| "select_loop ((pattern, provider_type) # rest) backend_url dflt =
     (if str_contains backend_url pattern then provider_type
      else select_loop rest backend_url dflt)"

definition select_provider_type :: "MappingBasedProviderSelector \<Rightarrow> config \<Rightarrow> string" where
  "select_provider_type self config =
     (let backend_url = dict_get config ''backend_url'' ''''
      in select_loop (mappings self) backend_url (default_provider self))"

subsection \<open>SearchProviderRegistry\<close>

text \<open>
  A registered creator is any callable from a configuration to a provider: it may raise,
  allocate a new object, or hand out an object that exists already.
\<close>

type_synonym 'p creator = "config \<Rightarrow> 'p heap \<Rightarrow> (exn + ref) \<times> 'p heap"

record 'p SearchProviderRegistry =
  providers :: "(string \<times> 'p creator) list"

definition registry_init :: "'p SearchProviderRegistry" where
  "registry_init = \<lparr>providers = []\<rparr>"

definition register :: "'p SearchProviderRegistry \<Rightarrow> string \<Rightarrow> 'p creator \<Rightarrow> 'p SearchProviderRegistry" where
  "register self provider_type creator =
     self\<lparr>providers := dict_set (providers self) provider_type creator\<rparr>"

definition create ::
  "'p SearchProviderRegistry \<Rightarrow> string \<Rightarrow> config \<Rightarrow> 'p heap \<Rightarrow> (error + ref) \<times> 'p heap" where
  "create self provider_type config h =
     (case map_of (providers self) provider_type of
        None \<Rightarrow> (Inl (UnknownProviderType provider_type), h)
      | Some creator \<Rightarrow>
          (case creator config h of
             (Inl e, h') \<Rightarrow> (Inl (ConstructorRaised e), h')
           | (Inr p, h') \<Rightarrow> (Inr p, h')))"

definition get_available_types :: "'p SearchProviderRegistry \<Rightarrow> string list" where
  "get_available_types self = map fst (providers self)"

subsection \<open>The cache key\<close>

text \<open>
  \<^verbatim>\<open>json.dumps(d, sort_keys=True)\<close> for a dictionary of strings, with the defaults
  \<^verbatim>\<open>ensure_ascii=True\<close> and separators \<^verbatim>\<open>", "\<close> and \<^verbatim>\<open>": "\<close>: every character
  outside \<^verbatim>\<open>' '..'~'\<close>, the quote and the backslash are escaped.
\<close>

definition hexdigit :: "nat \<Rightarrow> char" where
  "hexdigit n = (if n < 10 then char_of (48 + n) else char_of (87 + n))"

definition escape_char :: "char \<Rightarrow> string" where
  "escape_char c =
     (if c = CHR 0x22 then [CHR 0x5C, CHR 0x22]
      else if c = CHR 0x5C then [CHR 0x5C, CHR 0x5C]
      else if c = CHR 0x0A then [CHR 0x5C, CHR ''n'']
      else if c = CHR 0x0D then [CHR 0x5C, CHR ''r'']
      else if c = CHR 0x09 then [CHR 0x5C, CHR ''t'']
      else if c = CHR 0x08 then [CHR 0x5C, CHR ''b'']
      else if c = CHR 0x0C then [CHR 0x5C, CHR ''f'']
      else if 32 \<le> (of_char c :: nat) \<and> (of_char c :: nat) \<le> 126 then [c]
      else [CHR 0x5C, CHR ''u'', CHR ''0'', CHR ''0'',
            hexdigit ((of_char c :: nat) div 16), hexdigit ((of_char c :: nat) mod 16)])"

definition json_string :: "string \<Rightarrow> string" where
  "json_string s = CHR 0x22 # concat (map escape_char s) @ [CHR 0x22]"

fun json_items :: "(string \<times> string) list \<Rightarrow> string" where
  "json_items [] = []"
| "json_items [(k, v)] = json_string k @ '': '' @ json_string v"
| "json_items ((k, v) # kvs) = json_string k @ '': '' @ json_string v @ '', '' @ json_items kvs"

definition json_dumps_sort_keys :: "(string \<times> string) list \<Rightarrow> string" where
  "json_dumps_sort_keys d = ''{'' @ json_items (sort_key fst d) @ ''}''"

text \<open>
  Lines 67 to 71 of \<^verbatim>\<open>create_provider\<close>. The digest
  \<^verbatim>\<open>hashlib.md5(s.encode()).hexdigest()\<close> is a library function and a parameter here.
\<close>

definition cache_key_data :: "config \<Rightarrow> (string \<times> string) list" where
  "cache_key_data config =
     [(''backend_url'', dict_get config ''backend_url'' ''''),
      (''model'', dict_get config ''quick_think_llm'' '''')]"

definition cache_key :: "(string \<Rightarrow> string) \<Rightarrow> config \<Rightarrow> string" where
  "cache_key md5_hexdigest config = md5_hexdigest (json_dumps_sort_keys (cache_key_data config))"

subsection \<open>SearchProviderFactoryImpl\<close>

text \<open>
  The factory holds a registry, a selector (any object with a \<^verbatim>\<open>select_provider_type\<close>
  method, here its method) and the cache.
\<close>

record 'p SearchProviderFactoryImpl =
  registry :: "'p SearchProviderRegistry"
  selector :: "config \<Rightarrow> string"
  cache :: "string \<rightharpoonup> ref"

definition factory_init ::
  "'p SearchProviderRegistry \<Rightarrow> (config \<Rightarrow> string) \<Rightarrow> 'p SearchProviderFactoryImpl" where
  "factory_init reg sel = \<lparr>registry = reg, selector = sel, cache = Map.empty\<rparr>"

definition create_provider ::
  "(string \<Rightarrow> string) \<Rightarrow> 'p SearchProviderFactoryImpl \<Rightarrow> config \<Rightarrow> 'p heap
     \<Rightarrow> (error + ref) \<times> 'p SearchProviderFactoryImpl \<times> 'p heap" where
  "create_provider md5_hexdigest self config h =
     (let key = cache_key md5_hexdigest config in
      case cache self key of
        Some provider \<Rightarrow> (Inr provider, self, h)
      | None \<Rightarrow>
          (let provider_type = selector self config in
           case create (registry self) provider_type config h of
             (Inl e, h') \<Rightarrow> (Inl e, self, h')
           | (Inr provider, h') \<Rightarrow>
               (Inr provider, self\<lparr>cache := (cache self)(key \<mapsto> provider)\<rparr>, h')))"

definition clear_cache :: "'p SearchProviderFactoryImpl \<Rightarrow> 'p SearchProviderFactoryImpl" where
  "clear_cache self = self\<lparr>cache := Map.empty\<rparr>"

definition get_available_provider_types :: "'p SearchProviderFactoryImpl \<Rightarrow> string list" where
  "get_available_provider_types self = get_available_types (registry self)"

subsection \<open>The default factory\<close>

text \<open>
  Modelled from the spec: the classes \<^verbatim>\<open>GoogleSearchProvider\<close> and
  \<^verbatim>\<open>OpenAISearchProvider\<close> of \<^verbatim>\<open>search_provider.py\<close> are opaque capability
  implementations; an instance is the class name with the constructor's arguments.
\<close>

datatype search_provider =
  GoogleSearchProvider string
| OpenAISearchProvider string string

definition create_google_provider :: "search_provider creator" where
  "create_google_provider config h =
     (case dict_index config ''quick_think_llm'' of
        Inl e \<Rightarrow> (Inl e, h)
      | Inr model \<Rightarrow> (case alloc (GoogleSearchProvider model) h of (p, h') \<Rightarrow> (Inr p, h')))"

definition create_openai_provider :: "search_provider creator" where
  "create_openai_provider config h =
     (case dict_index config ''quick_think_llm'' of
        Inl e \<Rightarrow> (Inl e, h)
      | Inr model \<Rightarrow>
          (case dict_index config ''backend_url'' of
             Inl e \<Rightarrow> (Inl e, h)
           | Inr url \<Rightarrow>
               (case alloc (OpenAISearchProvider model url) h of (p, h') \<Rightarrow> (Inr p, h'))))"

definition url_mappings :: "(string \<times> string) list" where
  "url_mappings =
     dict_set (dict_set [] ''generativelanguage.googleapis.com'' ''google'')
       ''api.openai.com'' ''openai''"

definition create_search_provider_factory :: "search_provider SearchProviderFactoryImpl" where
  "create_search_provider_factory =
     (let registry = register (register registry_init ''google'' create_google_provider)
                       ''openai'' create_openai_provider;
          selector = \<lparr>mappings = url_mappings, default_provider = ''openai''\<rparr>
      in factory_init registry (select_provider_type selector))"

subsection \<open>EmbeddingProviderFactory\<close>

text \<open>
  Modelled from the spec: the classes of \<^verbatim>\<open>embedding_providers.py\<close> are opaque; an
  instance is the class name with the backend URL it was built from.
\<close>

datatype embedding_provider =
  GeminiEmbeddingProvider string
| OllamaEmbeddingProvider string
| OpenAIEmbeddingProvider string

definition embedding_create_provider :: "config \<Rightarrow> exn + embedding_provider" where
  "embedding_create_provider config =
     (case dict_index config ''backend_url'' of
        Inl e \<Rightarrow> Inl e
      | Inr backend_url \<Rightarrow>
          (if str_contains backend_url ''generativelanguage.googleapis.com''
           then Inr (GeminiEmbeddingProvider backend_url)
           else if str_contains backend_url ''localhost:11434''
           then Inr (OllamaEmbeddingProvider backend_url)
           else Inr (OpenAIEmbeddingProvider backend_url)))"

section \<open>Auxiliary facts\<close>








lemma cache_key_json:
  "json_dumps_sort_keys (cache_key_data config) =
     ''{'' @ json_string ''backend_url'' @ '': '' @ json_string (dict_get config ''backend_url'' '''')
       @ '', '' @ json_string ''model'' @ '': '' @ json_string (dict_get config ''quick_think_llm'' '''')
       @ ''}''"
  by (simp add: json_dumps_sort_keys_def cache_key_data_def)

lemma cache_key_json_literal:
  "json_dumps_sort_keys (cache_key_data config) =
     ''{\"backend_url\": \"'' @ concat (map escape_char (dict_get config ''backend_url'' ''''))
       @ ''\", \"model\": \"'' @ concat (map escape_char (dict_get config ''quick_think_llm'' ''''))
       @ ''\"}''"
  by (simp add: cache_key_json json_string_def escape_char_def)


lemma startswith_iff: "startswith s p \<longleftrightarrow> prefix p s"
  by (induction s p rule: startswith.induct) auto

lemma str_contains_iff: "str_contains s p \<longleftrightarrow> sublist p s"
  by (induction s) (simp_all add: startswith_iff sublist_Cons_right)

lemma map_of_dict_set: "map_of (dict_set d k v) = (map_of d)(k \<mapsto> v)"
  by (induction d) auto

lemma keys_dict_set:
  "map fst (dict_set d k v) = (if k \<in> fst ` set d then map fst d else map fst d @ [k])"
  by (induction d) (auto simp: rev_image_eqI)

section \<open>The selector\<close>

lemma select_loop_find:
  "select_loop ms url dflt =
     (case find (\<lambda>(pattern, label). sublist pattern url) ms of
        None \<Rightarrow> dflt | Some (pattern, label) \<Rightarrow> label)"
  by (induction ms url dflt rule: select_loop.induct) (simp_all add: str_contains_iff)

lemma select_loop_skip:
  "\<forall>(pattern, label) \<in> set pre. \<not> sublist pattern url
   \<Longrightarrow> select_loop (pre @ ms) url dflt = select_loop ms url dflt"
  by (induction pre) (auto simp: str_contains_iff)

text \<open>
  C2. For every configuration, \<open>select_provider_type\<close> walks the mappings in insertion
  order and returns the label of the first pattern that occurs as a substring of the
  configuration's \<^verbatim>\<open>backend_url\<close> (the empty string when the key is absent); when no
  pattern occurs in it, it returns the default label; whatever follows the first matching
  pattern in the mappings, also a second matching pattern, does not change the result.
\<close>

theorem select_provider_type_first_match:
  "(let backend_url = dict_get config ''backend_url'' '''' in
     select_provider_type self config =
       (case find (\<lambda>(pattern, label). sublist pattern backend_url) (mappings self) of
          None \<Rightarrow> default_provider self
        | Some (pattern, label) \<Rightarrow> label)
     \<and> ((\<forall>(pattern, label) \<in> set (mappings self). \<not> sublist pattern backend_url)
          \<longrightarrow> select_provider_type self config = default_provider self)
     \<and> (\<forall>pre pattern label post.
          mappings self = pre @ (pattern, label) # post
          \<and> (\<forall>(pattern', label') \<in> set pre. \<not> sublist pattern' backend_url)
          \<and> sublist pattern backend_url
          \<longrightarrow> select_provider_type self config = label))"
proof -
  define url where "url = dict_get config ''backend_url'' ''''"
  have sel: "select_provider_type self config = select_loop (mappings self) url (default_provider self)"
    by (simp add: select_provider_type_def url_def)
  have a: "select_provider_type self config =
       (case find (\<lambda>(pattern, label). sublist pattern url) (mappings self) of
          None \<Rightarrow> default_provider self
        | Some (pattern, label) \<Rightarrow> label)"
    unfolding sel by (rule select_loop_find)
  have b: "select_provider_type self config = default_provider self"
    if "\<forall>(pattern, label) \<in> set (mappings self). \<not> sublist pattern url"
    using select_loop_skip [OF that, of "[]" "default_provider self"] by (simp add: sel)
  have c: "select_provider_type self config = label"
    if "mappings self = pre @ (pattern, label) # post"
      and "\<forall>(pattern', label') \<in> set pre. \<not> sublist pattern' url"
      and "sublist pattern url"
    for pre pattern label post
    using that select_loop_skip [OF that(2), of "(pattern, label) # post" "default_provider self"]
    by (simp add: sel str_contains_iff)
  from a b c show ?thesis unfolding url_def [symmetric] Let_def by blast
qed

theorem select_provider_type_first_match_witness:
  "select_provider_type \<lparr>mappings = [(''api'', ''first''), (''openai'', ''second'')],
      default_provider = ''fallback''\<rparr> [''backend_url'' \<mapsto> ''https://api.openai.com/v1''] = ''first''
   \<and> select_provider_type \<lparr>mappings = [(''api'', ''first''), (''openai'', ''second'')],
      default_provider = ''fallback''\<rparr> [''backend_url'' \<mapsto> ''https://api.openai.com/v1''] \<noteq> ''second''
   \<and> select_provider_type \<lparr>mappings = [(''api'', ''first''), (''openai'', ''second'')],
      default_provider = ''fallback''\<rparr> Map.empty = ''fallback''"
proof -
  let ?self = "\<lparr>mappings = [(''api'', ''first''), (''openai'', ''second'')],
      default_provider = ''fallback''\<rparr>"
  let ?c = "[''backend_url'' \<mapsto> ''https://api.openai.com/v1'']"
  have url: "dict_get ?c ''backend_url'' '''' = ''https://api.openai.com/v1''"
    by (simp add: dict_get_def)
  have m1: "sublist ''api'' ''https://api.openai.com/v1''"
    unfolding str_contains_iff [symmetric] by simp
  have "select_provider_type ?self ?c = ''first''"
    using select_provider_type_first_match [of ?c ?self] m1
    unfolding url Let_def
    apply (elim conjE)
    apply (drule spec [of _ "[]"], drule spec [of _ "''api''"], drule spec [of _ "''first''"],
        drule spec [of _ "[(''openai'', ''second'')]"])
    apply simp
    done
  moreover
  have none: "\<forall>(pattern, label) \<in> set (mappings ?self). \<not> sublist pattern (dict_get Map.empty ''backend_url'' '''')"
    by (simp add: dict_get_def)
  have "select_provider_type ?self Map.empty = ''fallback''"
    using select_provider_type_first_match [of Map.empty ?self] none
    unfolding Let_def by simp
  ultimately show ?thesis by simp
qed

section \<open>The registry\<close>

lemma registered_iff: "label \<in> set (get_available_types self) \<longleftrightarrow> map_of (providers self) label \<noteq> None"
  by (simp add: get_available_types_def map_of_eq_None_iff)

text \<open>
  C3. \<open>create\<close> raises the unknown-provider-type error exactly when the label is not
  registered; in that case the heap is returned as it was, so nothing was constructed.
  When the label is registered, \<open>create\<close> calls the registered constructor with the
  configuration and returns what the constructor returns (an exception that escapes the
  constructor propagates, tagged with its origin).
\<close>

theorem create_unknown_iff_unregistered:
  "((\<exists>l. fst (create self label config h) = Inl (UnknownProviderType l))
      \<longleftrightarrow> label \<notin> set (get_available_types self))
   \<and> (label \<notin> set (get_available_types self)
        \<longrightarrow> create self label config h = (Inl (UnknownProviderType label), h))
   \<and> (\<forall>creator. map_of (providers self) label = Some creator
        \<longrightarrow> label \<in> set (get_available_types self)
          \<and> create self label config h =
             (case creator config h of
                (Inl e, h') \<Rightarrow> (Inl (ConstructorRaised e), h')
              | (Inr p, h') \<Rightarrow> (Inr p, h')))"
  by (auto simp: create_def registered_iff split: option.splits prod.splits sum.splits)

theorem create_unknown_iff_unregistered_witness:
  "create (register registry_init ''google'' create_google_provider) ''bing''
      [''quick_think_llm'' \<mapsto> ''gemini-pro''] [] = (Inl (UnknownProviderType ''bing''), [])
   \<and> create (register registry_init ''google'' create_google_provider) ''google''
      [''quick_think_llm'' \<mapsto> ''gemini-pro''] [] = (Inr 0, [GoogleSearchProvider ''gemini-pro''])"
proof -
  let ?reg = "register registry_init ''google'' create_google_provider"
  let ?c = "[''quick_think_llm'' \<mapsto> ''gemini-pro'']"
  have avail: "get_available_types ?reg = [''google'']"
    by (simp add: get_available_types_def register_def registry_init_def)
  have look: "map_of (providers ?reg) ''google'' = Some create_google_provider"
    by (simp add: register_def registry_init_def)
  have run: "create_google_provider ?c [] = (Inr 0, [GoogleSearchProvider ''gemini-pro''])"
    by (simp add: create_google_provider_def dict_index_def alloc_def)
  have "create ?reg ''bing'' ?c [] = (Inl (UnknownProviderType ''bing''), [])"
    using create_unknown_iff_unregistered [of ?reg "''bing''" ?c "[]"] avail by simp
  moreover
  have "create ?reg ''google'' ?c [] = (Inr 0, [GoogleSearchProvider ''gemini-pro''])"
    using create_unknown_iff_unregistered [of ?reg "''google''" ?c "[]"] look run by simp
  ultimately show ?thesis by simp
qed

text \<open>
  C8. \<open>register\<close> is total: it raises nothing, also for a label that is registered
  already. Afterwards the label maps to the constructor just given, \<open>create\<close> for that
  label calls this constructor, a label that was registered before keeps its single place
  in the list of available types, and no other label is affected.
\<close>

theorem register_last_write_wins:
  "map_of (providers (register self label creator)) label = Some creator
   \<and> create (register self label creator) label config h =
       (case creator config h of
          (Inl e, h') \<Rightarrow> (Inl (ConstructorRaised e), h')
        | (Inr p, h') \<Rightarrow> (Inr p, h'))
   \<and> (label \<in> set (get_available_types self)
        \<longrightarrow> get_available_types (register self label creator) = get_available_types self)
   \<and> (\<forall>other. other \<noteq> label
        \<longrightarrow> map_of (providers (register self label creator)) other = map_of (providers self) other)"
  by (simp add: register_def create_def map_of_dict_set keys_dict_set get_available_types_def)

theorem register_last_write_wins_witness:
  "create (register (register registry_init ''google'' create_openai_provider)
             ''google'' create_google_provider) ''google''
      [''quick_think_llm'' \<mapsto> ''gemini-pro''] [] = (Inr 0, [GoogleSearchProvider ''gemini-pro''])
   \<and> get_available_types (register (register registry_init ''google'' create_openai_provider)
             ''google'' create_google_provider) = [''google'']"
proof -
  let ?reg = "register registry_init ''google'' create_openai_provider"
  let ?c = "[''quick_think_llm'' \<mapsto> ''gemini-pro'']"
  have avail: "get_available_types ?reg = [''google'']"
    by (simp add: get_available_types_def register_def registry_init_def)
  have run: "create_google_provider ?c [] = (Inr 0, [GoogleSearchProvider ''gemini-pro''])"
    by (simp add: create_google_provider_def dict_index_def alloc_def)
  show ?thesis
    using register_last_write_wins [of ?reg "''google''" create_google_provider ?c "[]"] avail run
    by simp
qed

section \<open>The embedding factory\<close>

text \<open>
  C6. For every \<^verbatim>\<open>backend_url\<close>, \<open>EmbeddingProviderFactory.create_provider\<close> returns a
  Gemini provider when the URL contains \<^verbatim>\<open>generativelanguage.googleapis.com\<close>, otherwise
  an Ollama provider when it contains \<^verbatim>\<open>localhost:11434\<close>, and otherwise the
  OpenAI-compatible provider.
\<close>

theorem embedding_create_provider_dispatch:
  "embedding_create_provider (config(''backend_url'' \<mapsto> backend_url)) =
     Inr (if sublist ''generativelanguage.googleapis.com'' backend_url
          then GeminiEmbeddingProvider backend_url
          else if sublist ''localhost:11434'' backend_url
          then OllamaEmbeddingProvider backend_url
          else OpenAIEmbeddingProvider backend_url)"
  by (simp add: embedding_create_provider_def dict_index_def str_contains_iff)

section \<open>The caching factory\<close>

text \<open>
  C10. \<open>clear_cache\<close> changes the cache only: registry and selector are the same after
  it, \<open>get_available_provider_types\<close> returns the same list, and selection and
  construction behave as before.
\<close>

theorem clear_cache_frame:
  "registry (clear_cache self) = registry self
   \<and> selector (clear_cache self) = selector self
   \<and> cache (clear_cache self) = Map.empty
   \<and> get_available_provider_types (clear_cache self) = get_available_provider_types self
   \<and> selector (clear_cache self) config = selector self config
   \<and> create (registry (clear_cache self)) label config h = create (registry self) label config h"
  by (simp add: clear_cache_def get_available_provider_types_def)

lemma default_factory_registry:
  "map_of (providers (registry create_search_provider_factory)) ''google'' = Some create_google_provider"
  "map_of (providers (registry create_search_provider_factory)) ''openai'' = Some create_openai_provider"
  "get_available_provider_types create_search_provider_factory = [''google'', ''openai'']"
  "cache create_search_provider_factory = Map.empty"
  by (simp_all add: create_search_provider_factory_def factory_init_def register_def
      registry_init_def get_available_provider_types_def get_available_types_def)

lemma default_factory_selector:
  "selector create_search_provider_factory config =
     select_loop url_mappings (dict_get config ''backend_url'' '''') ''openai''"
  by (simp add: create_search_provider_factory_def factory_init_def select_provider_type_def)

text \<open>
  C9. Whenever \<open>create_provider\<close> raises, the factory it leaves behind is the factory
  it started from: the cache has no new entry, registry and selector are untouched. On a
  cache miss, an error of the registry's \<open>create\<close> (an unregistered label, or an exception
  inside the constructor) is the error of \<open>create_provider\<close>.
\<close>

theorem create_provider_error_keeps_cache:
  "(\<forall>e self' h'. create_provider md5_hexdigest self config h = (Inl e, self', h') \<longrightarrow> self' = self)
   \<and> (\<forall>e h'. cache self (cache_key md5_hexdigest config) = None
          \<and> create (registry self) (selector self config) config h = (Inl e, h')
        \<longrightarrow> create_provider md5_hexdigest self config h = (Inl e, self, h'))"
  by (auto simp: create_provider_def Let_def split: option.splits prod.splits sum.splits)

theorem create_provider_error_keeps_cache_witness:
  "create_provider (\<lambda>s. s) create_search_provider_factory
      [''backend_url'' \<mapsto> ''https://api.openai.com/v1''] []
    = (Inl (ConstructorRaised (KeyError ''quick_think_llm'')), create_search_provider_factory, [])"
proof -
  let ?c = "[''backend_url'' \<mapsto> ''https://api.openai.com/v1'']"
  have sel: "selector create_search_provider_factory ?c = ''openai''"
    by (simp add: default_factory_selector url_mappings_def dict_get_def)
  have run: "create (registry create_search_provider_factory) ''openai'' ?c []
               = (Inl (ConstructorRaised (KeyError ''quick_think_llm'')), [])"
    by (simp add: create_def default_factory_registry create_openai_provider_def dict_index_def)
  show ?thesis
    using create_provider_error_keeps_cache [of "\<lambda>s. s" create_search_provider_factory ?c "[]"]
      sel run
    by (simp add: default_factory_registry)
qed

text \<open>
  C5. The cache key is the digest of the JSON object with exactly the two members
  \<^verbatim>\<open>"backend_url"\<close> and \<^verbatim>\<open>"model"\<close>, in sorted key order, holding the configuration's
  \<^verbatim>\<open>backend_url\<close> and \<^verbatim>\<open>quick_think_llm\<close> (the empty string when absent). Two
  configurations that agree on these two fields have the same cache key, whatever their
  other fields are.
\<close>

theorem cache_key_relevant_fields:
  "cache_key md5_hexdigest config =
     md5_hexdigest
       (''{\"backend_url\": \"'' @ concat (map escape_char (dict_get config ''backend_url'' ''''))
          @ ''\", \"model\": \"'' @ concat (map escape_char (dict_get config ''quick_think_llm'' ''''))
          @ ''\"}'')
   \<and> (config' ''backend_url'' = config ''backend_url''
        \<and> config' ''quick_think_llm'' = config ''quick_think_llm''
        \<longrightarrow> cache_key md5_hexdigest config' = cache_key md5_hexdigest config)"
  by (simp add: cache_key_def cache_key_json_literal dict_get_def)

theorem cache_key_relevant_fields_witness:
  "cache_key (\<lambda>s. s) [''backend_url'' \<mapsto> ''https://generativelanguage.googleapis.com/v1'',
                      ''quick_think_llm'' \<mapsto> ''gemini-pro'', ''max_debate_rounds'' \<mapsto> ''3'']
   = cache_key (\<lambda>s. s) [''backend_url'' \<mapsto> ''https://generativelanguage.googleapis.com/v1'',
                      ''quick_think_llm'' \<mapsto> ''gemini-pro'']
   \<and> cache_key (\<lambda>s. s) [''backend_url'' \<mapsto> ''https://generativelanguage.googleapis.com/v1'',
                      ''quick_think_llm'' \<mapsto> ''gemini-pro'']
   = ''{\"backend_url\": \"https://generativelanguage.googleapis.com/v1\", \"model\": \"gemini-pro\"}''"
proof -
  let ?c = "[''backend_url'' \<mapsto> ''https://generativelanguage.googleapis.com/v1'',
             ''quick_think_llm'' \<mapsto> ''gemini-pro'']"
  let ?c' = "?c(''max_debate_rounds'' \<mapsto> ''3'')"
  have "cache_key (\<lambda>s. s) ?c' = cache_key (\<lambda>s. s) ?c"
    using cache_key_relevant_fields [of "\<lambda>s. s" ?c ?c'] by simp
  moreover
  have "cache_key (\<lambda>s. s) ?c
     = ''{\"backend_url\": \"https://generativelanguage.googleapis.com/v1\", \"model\": \"gemini-pro\"}''"
    using cache_key_relevant_fields [of "\<lambda>s. s" ?c ?c']
    by (simp add: dict_get_def escape_char_def)
  ultimately show ?thesis by simp
qed



lemma create_provider_caches:
  "create_provider md5_hexdigest self config h = (Inr p, self', h')
   \<Longrightarrow> cache self' (cache_key md5_hexdigest config) = Some p
     \<and> (\<forall>k. k \<noteq> cache_key md5_hexdigest config \<longrightarrow> cache self' k = cache self k)
     \<and> registry self' = registry self \<and> selector self' = selector self"
  by (auto simp: create_provider_def Let_def split: option.splits prod.splits sum.splits)



text \<open>
  C7, the claim as stated fails: with a registered constructor that hands out an object
  that exists already (reference 0 of the heap), the call after \<open>clear_cache\<close> returns the
  same reference as the call before it.
\<close>

theorem clear_cache_reconstruct_counterexample:
  "create_provider (\<lambda>s. s)
      (factory_init (register registry_init ''shared'' (\<lambda>config h. (Inr 0, h))) (\<lambda>config. ''shared''))
      [''backend_url'' \<mapsto> ''http://x''] [GoogleSearchProvider ''m'']
    = (Inr 0,
       (factory_init (register registry_init ''shared'' (\<lambda>config h. (Inr 0, h))) (\<lambda>config. ''shared''))
         \<lparr>cache := [cache_key (\<lambda>s. s) [''backend_url'' \<mapsto> ''http://x''] \<mapsto> 0]\<rparr>,
       [GoogleSearchProvider ''m''])
   \<and> fst (create_provider (\<lambda>s. s)
        (clear_cache
          ((factory_init (register registry_init ''shared'' (\<lambda>config h. (Inr 0, h))) (\<lambda>config. ''shared''))
            \<lparr>cache := [cache_key (\<lambda>s. s) [''backend_url'' \<mapsto> ''http://x''] \<mapsto> 0]\<rparr>))
        [''backend_url'' \<mapsto> ''http://x''] [GoogleSearchProvider ''m''])
    = Inr 0"
  by (simp add: create_provider_def clear_cache_def factory_init_def register_def registry_init_def
      create_def Let_def)

text \<open>
  C7, amended. \<open>clear_cache\<close> empties the cache. After a call of \<open>create_provider\<close> that
  returned the instance \<open>p1\<close>, and a \<open>clear_cache\<close>, the next call with the same
  configuration does not answer from the cache: it calls the registered constructor again,
  returns what the constructor built and caches it as the only entry. When the constructor
  builds a new object (a reference that is not on the heap yet, as instantiating a class
  gives), the returned instance is distinct from the live instance \<open>p1\<close>.
\<close>

theorem clear_cache_reconstruct:
  assumes first: "create_provider md5_hexdigest self config h = (Inr p1, self1, h1)"
    and live: "p1 < length h1"
    and registered: "map_of (providers (registry self)) (selector self config) = Some creator"
    and built: "creator config h1 = (Inr p2, h2)"
    and fresh: "length h1 \<le> p2"
  shows "cache (clear_cache self1) = Map.empty
       \<and> create_provider md5_hexdigest (clear_cache self1) config h1
           = (Inr p2, self1\<lparr>cache := [cache_key md5_hexdigest config \<mapsto> p2]\<rparr>, h2)
       \<and> p2 \<noteq> p1"
proof -
  from create_provider_caches [OF first]
  have same: "registry self1 = registry self" "selector self1 = selector self" by simp_all
  have "create (registry self) (selector self config) config h1 = (Inr p2, h2)"
    by (simp add: create_def registered built)
  then have "create_provider md5_hexdigest (clear_cache self1) config h1
           = (Inr p2, self1\<lparr>cache := [cache_key md5_hexdigest config \<mapsto> p2]\<rparr>, h2)"
    by (simp add: create_provider_def clear_cache_def same)
  moreover have "p2 \<noteq> p1" using live fresh by simp
  ultimately show ?thesis by (simp add: clear_cache_def)
qed

theorem clear_cache_reconstruct_witness:
  "create_provider (\<lambda>s. s)
      (clear_cache (create_search_provider_factory
          \<lparr>cache := [cache_key (\<lambda>s. s)
              [''backend_url'' \<mapsto> ''https://generativelanguage.googleapis.com/v1'',
               ''quick_think_llm'' \<mapsto> ''gemini-pro''] \<mapsto> 0]\<rparr>))
      [''backend_url'' \<mapsto> ''https://generativelanguage.googleapis.com/v1'',
       ''quick_think_llm'' \<mapsto> ''gemini-pro'']
      [GoogleSearchProvider ''gemini-pro'']
     = (Inr 1,
        create_search_provider_factory
          \<lparr>cache := [cache_key (\<lambda>s. s)
              [''backend_url'' \<mapsto> ''https://generativelanguage.googleapis.com/v1'',
               ''quick_think_llm'' \<mapsto> ''gemini-pro''] \<mapsto> 0]\<rparr>
          \<lparr>cache := [cache_key (\<lambda>s. s)
              [''backend_url'' \<mapsto> ''https://generativelanguage.googleapis.com/v1'',
               ''quick_think_llm'' \<mapsto> ''gemini-pro''] \<mapsto> 1]\<rparr>,
        [GoogleSearchProvider ''gemini-pro'', GoogleSearchProvider ''gemini-pro''])
   \<and> (1::nat) \<noteq> 0"
proof -
  let ?c1 = "[''backend_url'' \<mapsto> ''https://generativelanguage.googleapis.com/v1'',
              ''quick_think_llm'' \<mapsto> ''gemini-pro'']"
  let ?F1 = "create_search_provider_factory\<lparr>cache := [cache_key (\<lambda>s. s) ?c1 \<mapsto> 0]\<rparr>"
  let ?H1 = "[GoogleSearchProvider ''gemini-pro'']"
  let ?H2 = "[GoogleSearchProvider ''gemini-pro'', GoogleSearchProvider ''gemini-pro'']"
  have sel: "selector create_search_provider_factory ?c1 = ''google''"
    by (simp add: default_factory_selector url_mappings_def dict_get_def)
  have run: "create (registry create_search_provider_factory) ''google'' ?c1 [] = (Inr 0, ?H1)"
    by (simp add: create_def default_factory_registry create_google_provider_def dict_index_def
        alloc_def)
  have first: "create_provider (\<lambda>s. s) create_search_provider_factory ?c1 [] = (Inr 0, ?F1, ?H1)"
    by (simp add: create_provider_def sel run default_factory_registry)
  have live: "(0::nat) < length ?H1" by simp
  have registered: "map_of (providers (registry create_search_provider_factory))
      (selector create_search_provider_factory ?c1) = Some create_google_provider"
    by (simp add: sel default_factory_registry)
  have built: "create_google_provider ?c1 ?H1 = (Inr 1, ?H2)"
    by (simp add: create_google_provider_def dict_index_def alloc_def)
  have fresh: "length ?H1 \<le> (1::nat)" by simp
  from clear_cache_reconstruct [where creator = create_google_provider, OF first live registered built fresh,
      THEN conjunct2]
  show ?thesis .
qed

section \<open>Misconfiguration\<close>

text \<open>
  C4, the claim as stated fails: for a configuration without \<^verbatim>\<open>backend_url\<close>,
  \<open>EmbeddingProviderFactory.create_provider\<close> raises \<^verbatim>\<open>KeyError\<close> at
  \<^verbatim>\<open>config["backend_url"]\<close>; and in the default search factory the selector resolves
  such a configuration to \<^verbatim>\<open>openai\<close>, whose constructor raises the same
  \<^verbatim>\<open>KeyError\<close>.
\<close>

theorem creation_never_fails_counterexample:
  "embedding_create_provider [''quick_think_llm'' \<mapsto> ''gpt-4o-mini'']
     = Inl (KeyError ''backend_url'')
   \<and> create_provider (\<lambda>s. s) create_search_provider_factory
        [''quick_think_llm'' \<mapsto> ''gpt-4o-mini''] []
     = (Inl (ConstructorRaised (KeyError ''backend_url'')), create_search_provider_factory, [])"
proof -
  let ?c = "[''quick_think_llm'' \<mapsto> ''gpt-4o-mini'']"
  have sel: "selector create_search_provider_factory ?c = ''openai''"
    by (simp add: default_factory_selector url_mappings_def dict_get_def)
  have run: "create (registry create_search_provider_factory) ''openai'' ?c []
               = (Inl (ConstructorRaised (KeyError ''backend_url'')), [])"
    by (simp add: create_def default_factory_registry create_openai_provider_def dict_index_def)
  have "create_provider (\<lambda>s. s) create_search_provider_factory ?c []
     = (Inl (ConstructorRaised (KeyError ''backend_url'')), create_search_provider_factory, [])"
    by (simp add: create_provider_def sel run default_factory_registry)
  moreover have "embedding_create_provider ?c = Inl (KeyError ''backend_url'')"
    by (simp add: embedding_create_provider_def dict_index_def)
  ultimately show ?thesis by simp
qed

text \<open>
  C4, amended. \<open>select_provider_type\<close> has no error path: a missing \<^verbatim>\<open>backend_url\<close> is
  read as the empty string and resolves to the default label (no registered pattern being
  empty), and so does every URL in which no registered pattern occurs.
  \<open>EmbeddingProviderFactory.create_provider\<close> returns an instance for every configuration
  that has a \<^verbatim>\<open>backend_url\<close>, and that instance is the OpenAI-compatible default when
  neither pattern occurs in the URL.
\<close>

theorem misconfiguration_resolves_to_default:
  "(config ''backend_url'' = None \<and> (\<forall>(pattern, label) \<in> set (mappings self). pattern \<noteq> [])
      \<longrightarrow> select_provider_type self config = default_provider self)
   \<and> (\<forall>url. config ''backend_url'' = Some url
          \<and> (\<forall>(pattern, label) \<in> set (mappings self). \<not> sublist pattern url)
        \<longrightarrow> select_provider_type self config = default_provider self)
   \<and> (\<forall>url. config ''backend_url'' = Some url
        \<longrightarrow> (\<exists>provider. embedding_create_provider config = Inr provider))
   \<and> (\<forall>url. config ''backend_url'' = Some url
          \<and> \<not> sublist ''generativelanguage.googleapis.com'' url
          \<and> \<not> sublist ''localhost:11434'' url
        \<longrightarrow> embedding_create_provider config = Inr (OpenAIEmbeddingProvider url))"
proof (intro conjI allI impI)
  assume a: "config ''backend_url'' = None \<and> (\<forall>(pattern, label) \<in> set (mappings self). pattern \<noteq> [])"
  then have "\<forall>(pattern, label) \<in> set (mappings self). \<not> sublist pattern (dict_get config ''backend_url'' '''')"
    by (auto simp: dict_get_def)
  then show "select_provider_type self config = default_provider self"
    using select_loop_skip [of "mappings self" "dict_get config ''backend_url'' ''''" "[]" "default_provider self"]
    by (simp add: select_provider_type_def)
next
  fix url
  assume a: "config ''backend_url'' = Some url
          \<and> (\<forall>(pattern, label) \<in> set (mappings self). \<not> sublist pattern url)"
  then have "\<forall>(pattern, label) \<in> set (mappings self). \<not> sublist pattern (dict_get config ''backend_url'' '''')"
    by (auto simp: dict_get_def)
  then show "select_provider_type self config = default_provider self"
    using select_loop_skip [of "mappings self" "dict_get config ''backend_url'' ''''" "[]" "default_provider self"]
    by (simp add: select_provider_type_def)
next
  fix url
  assume "config ''backend_url'' = Some url"
  then show "\<exists>provider. embedding_create_provider config = Inr provider"
    by (simp add: embedding_create_provider_def dict_index_def)
next
  fix url
  assume "config ''backend_url'' = Some url
          \<and> \<not> sublist ''generativelanguage.googleapis.com'' url
          \<and> \<not> sublist ''localhost:11434'' url"
  then show "embedding_create_provider config = Inr (OpenAIEmbeddingProvider url)"
    by (simp add: embedding_create_provider_def dict_index_def str_contains_iff)
qed

theorem misconfiguration_resolves_to_default_witness:
  "select_provider_type \<lparr>mappings = url_mappings, default_provider = ''openai''\<rparr> Map.empty = ''openai''
   \<and> select_provider_type \<lparr>mappings = url_mappings, default_provider = ''openai''\<rparr>
        [''backend_url'' \<mapsto> ''not a url''] = ''openai''
   \<and> embedding_create_provider [''backend_url'' \<mapsto> ''not a url'']
        = Inr (OpenAIEmbeddingProvider ''not a url'')"
proof -
  let ?self = "\<lparr>mappings = url_mappings, default_provider = ''openai''\<rparr>"
  let ?c = "[''backend_url'' \<mapsto> ''not a url'']"
  have nonempty: "\<forall>(pattern, label) \<in> set (mappings ?self). pattern \<noteq> []"
    by (simp add: url_mappings_def)
  have nomatch: "\<forall>(pattern, label) \<in> set (mappings ?self). \<not> sublist pattern ''not a url''"
    unfolding str_contains_iff [symmetric] by (simp add: url_mappings_def)
  have nomatch': "\<not> sublist ''generativelanguage.googleapis.com'' ''not a url''
      \<and> \<not> sublist ''localhost:11434'' ''not a url''"
    unfolding str_contains_iff [symmetric] by simp
  have "select_provider_type ?self Map.empty = ''openai''"
    using misconfiguration_resolves_to_default [of Map.empty ?self, THEN conjunct1] nonempty
    by simp
  moreover
  have "select_provider_type ?self ?c = ''openai''"
    using misconfiguration_resolves_to_default [of ?c ?self, THEN conjunct2, THEN conjunct1,
        THEN spec, of "''not a url''"] nomatch
    by simp
  moreover
  have "embedding_create_provider ?c = Inr (OpenAIEmbeddingProvider ''not a url'')"
    using misconfiguration_resolves_to_default [of ?c ?self, THEN conjunct2, THEN conjunct2,
        THEN conjunct2, THEN spec, of "''not a url''"] nomatch'
    by simp
  ultimately show ?thesis by (intro conjI)
qed

end
